theory Spec2Isabelle
  imports Main "HOL-Library.Sublist"
begin

section \<open>Python values and their text\<close>

text \<open>
  The values that reach an f-string or \<^verbatim>\<open>str()\<close> in \<^verbatim>\<open>batc.py\<close>: \<^verbatim>\<open>None\<close> (an unset
  environment variable, an absent stream), the integers click parses for \<^verbatim>\<open>--ntasks\<close> and
  \<^verbatim>\<open>--cpu\<close>, text, and the bytes a pipe of \<^verbatim>\<open>subprocess.Popen\<close> delivers.
\<close>

datatype pyval = PyNone | PyInt int | PyStr string | PyBytes string

datatype error =
    AttributeError
  | BadOptionUsage string string
  | TypeError
  | OSError

definition newline :: char where
  "newline = CHR 0x0A"

definition backslash :: char where
  "backslash = CHR 0x5C"

definition squote :: char where
  "squote = CHR 0x27"

definition dquote :: char where
  "dquote = CHR 0x22"

text \<open>Decimal text of an integer, as \<^verbatim>\<open>str(int)\<close> gives it.\<close>

fun str_nat :: "nat \<Rightarrow> string" where
  "str_nat n =
     (if n < 10 then [''0123456789'' ! n]
      else str_nat (n div 10) @ [''0123456789'' ! (n mod 10)])"

declare str_nat.simps [simp del]

definition str_int :: "int \<Rightarrow> string" where
  "str_int i = (if i < 0 then CHR ''-'' # str_nat (nat (- i)) else str_nat (nat i))"

text \<open>
  \<^verbatim>\<open>repr\<close> of a bytes object (which is what \<^verbatim>\<open>str\<close> of it returns): the prefix \<^verbatim>\<open>b\<close>, a
  quote (double only when the bytes hold a single quote and no double one), and each byte
  either as it is or escaped.
\<close>

definition hex_digit :: "nat \<Rightarrow> char" where
  "hex_digit n = ''0123456789abcdef'' ! n"

definition bytes_quote :: "string \<Rightarrow> char" where
  "bytes_quote b = (if squote \<in> set b \<and> dquote \<notin> set b then dquote else squote)"

definition bytes_escape :: "char \<Rightarrow> char \<Rightarrow> string" where
  "bytes_escape q c =
     (if c = q \<or> c = backslash then [backslash, c]
      else if c = CHR 0x09 then [backslash, CHR ''t'']
      else if c = CHR 0x0A then [backslash, CHR ''n'']
      else if c = CHR 0x0D then [backslash, CHR ''r'']
      else if (of_char c :: nat) < 0x20 \<or> (0x7F :: nat) \<le> of_char c
        then [backslash, CHR ''x'', hex_digit (of_char c div 16), hex_digit (of_char c mod 16)]
      else [c])"

definition bytes_repr :: "string \<Rightarrow> string" where
  "bytes_repr b =
     CHR ''b'' # bytes_quote b # concat (map (bytes_escape (bytes_quote b)) b) @ [bytes_quote b]"

fun py_str :: "pyval \<Rightarrow> string" where
  "py_str PyNone = ''None''"
| "py_str (PyInt i) = str_int i"
| "py_str (PyStr s) = s"
| "py_str (PyBytes b) = bytes_repr b"

definition opt_val :: "string option \<Rightarrow> pyval" where
  "opt_val v = (case v of None \<Rightarrow> PyNone | Some s \<Rightarrow> PyStr s)"

text \<open>\<^verbatim>\<open>text.split('\n')\<close>: the lines of a text.\<close>

fun split_lines :: "string \<Rightarrow> string list" where
  "split_lines [] = [[]]"
| "split_lines (c # cs) =
     (if c = newline then [] # split_lines cs
      else (case split_lines cs of [] \<Rightarrow> [[c]] | l # ls \<Rightarrow> (c # l) # ls))"

section \<open>The two regular expressions\<close>

definition is_digit :: "char \<Rightarrow> bool" where
  "is_digit c \<longleftrightarrow> c \<in> set ''0123456789''"

definition is_alpha :: "char \<Rightarrow> bool" where
  "is_alpha c \<longleftrightarrow> c \<in> set ''abcdefghijklmnopqrstuvwxyzABCDEFGHIJKLMNOPQRSTUVWXYZ''"

text \<open>
  Line 11: \<^verbatim>\<open>re.search(r"^nexus([a-zA-Z]+)", socket.getfqdn()).group(1)\<close>. Without a match
  \<^verbatim>\<open>re.search\<close> returns \<^verbatim>\<open>None\<close> and \<^verbatim>\<open>.group\<close> raises \<^verbatim>\<open>AttributeError\<close>.
\<close>

definition partition_acc_name :: "string \<Rightarrow> error + string" where
  "partition_acc_name host =
     (if prefix ''nexus'' host \<and> takeWhile is_alpha (drop 5 host) \<noteq> []
      then Inr (takeWhile is_alpha (drop 5 host))
      else Inl AttributeError)"

text \<open>
  Line 134: \<^verbatim>\<open>re.search(r"Submitted batch job (\d+)", text)\<close>. \<open>match_pid\<close> is the attempt
  at one start position (the literal, then the longest run of digits, which must not be
  empty); the search takes the leftmost position where the attempt succeeds and returns
  group 1.
\<close>

definition pid_pattern :: string where
  "pid_pattern = ''Submitted batch job ''"

definition match_pid :: "string \<Rightarrow> string option" where
  "match_pid t =
     (if prefix pid_pattern t \<and> takeWhile is_digit (drop (length pid_pattern) t) \<noteq> []
      then Some (takeWhile is_digit (drop (length pid_pattern) t))
      else None)"

fun re_search_pid :: "string \<Rightarrow> string option" where
  "re_search_pid [] = match_pid []"
| "re_search_pid (c # cs) =
     (case match_pid (c # cs) of Some d \<Rightarrow> Some d | None \<Rightarrow> re_search_pid cs)"

section \<open>The process and its surroundings\<close>

text \<open>
  What the program reads and changes. \<open>realpath\<close> is the file system's resolution of an
  absolute path to the canonical path of the file it names (repeated slashes, dot
  components and links resolved); \<open>files\<close> holds the regular files by canonical path;
  \<open>can_open\<close> says whether opening a path for writing or appending succeeds; \<open>sbatch\<close> is
  the child process, from the path and the content of the script it is given to what it
  prints on stdout and stderr (\<open>None\<close> when it cannot be spawned); \<open>tmpname\<close> is the
  canonical path of the next temporary file (\<open>None\<close> when none can be made). \<open>systemed\<close>, \<open>submitted\<close>
  and \<open>echoed\<close> record, in order, the commands given to \<^verbatim>\<open>os.system\<close>, the scripts given to
  sbatch and the messages of \<^verbatim>\<open>click.echo\<close>.
\<close>

record world =
  environ :: "string \<rightharpoonup> string"
  cwd :: string
  realpath :: "string \<Rightarrow> string"
  fqdn :: string
  pw_dir :: string
  now :: string
  files :: "string \<rightharpoonup> string"
  can_open :: "string \<Rightarrow> bool"
  sbatch :: "string \<Rightarrow> string \<Rightarrow> (string \<times> string) option"
  tmpname :: "string option"
  systemed :: "string list"
  submitted :: "string list"
  echoed :: "string list"

definition getenv :: "world \<Rightarrow> string \<Rightarrow> string option" where
  "getenv w k = environ w k"

text \<open>\<^verbatim>\<open>os.path.join(a, b)\<close> of posixpath, on two texts.\<close>

definition join :: "string \<Rightarrow> string \<Rightarrow> string" where
  "join a b =
     (if prefix ''/'' b \<or> a = [] then b
      else if suffix ''/'' a then a @ b
      else a @ ''/'' @ b)"

text \<open>
  The file the system resolves a path to: relative paths start at \<open>cwd\<close>, and the file
  system resolves the absolute path.
\<close>

definition abspath :: "world \<Rightarrow> string \<Rightarrow> string" where
  "abspath w p = realpath w (join (cwd w) p)"

text \<open>\<^verbatim>\<open>os.path.isfile\<close>: false on the empty path, else whether a regular file is there.\<close>

definition isfile :: "world \<Rightarrow> string \<Rightarrow> bool" where
  "isfile w p \<longleftrightarrow> p \<noteq> [] \<and> files w (abspath w p) \<noteq> None"

text \<open>\<^verbatim>\<open>os.path.expanduser\<close> on a path that starts with \<^verbatim>\<open>~/\<close>.\<close>

definition rstrip_slash :: "string \<Rightarrow> string" where
  "rstrip_slash s = rev (dropWhile (\<lambda>c. c = CHR ''/'') (rev s))"

definition expanduser :: "world \<Rightarrow> string \<Rightarrow> string" where
  "expanduser w p =
     (if prefix ''~/'' p
      then rstrip_slash (case environ w ''HOME'' of Some h \<Rightarrow> h | None \<Rightarrow> pw_dir w) @ drop 1 p
      else p)"

definition os_system :: "world \<Rightarrow> string \<Rightarrow> world" where
  "os_system w c = w\<lparr>systemed := systemed w @ [c]\<rparr>"

definition echo :: "world \<Rightarrow> string \<Rightarrow> world" where
  "echo w s = w\<lparr>echoed := echoed w @ [s]\<rparr>"

definition write_lines :: "string list \<Rightarrow> string" where
  "write_lines ls = foldl (\<lambda>buf line. buf @ line @ [newline]) [] ls"

section \<open>setup\<close>

text \<open>
  Lines 36 to 55. The guard first; then the install, the block appended to the shell
  profile (opening it in append mode creates it when it is missing and raises when it
  cannot be opened), and the attempt to source the profile.
\<close>

definition setup_lines :: "world \<Rightarrow> string list" where
  \<open>setup_lines w =
     [''alias scratch="cd /fs/nexus-scratch/'' @ py_str (opt_val (getenv w ''USER'')) @ ''/"'',
      ''export BATC_SETUP=true'']\<close>

definition append_file :: "world \<Rightarrow> string \<Rightarrow> string \<Rightarrow> world" where
  "append_file w p txt =
     w\<lparr>files := (files w)(abspath w p \<mapsto>
          (case files w (abspath w p) of None \<Rightarrow> [] | Some old \<Rightarrow> old) @ txt)\<rparr>"

definition setup_cmd :: "world \<Rightarrow> (error + unit) \<times> world" where
  "setup_cmd w =
     (if getenv w ''BATC_SETUP'' = Some ''true''
      then (Inr (), echo w ''Setup has already been completed'')
      else
        let w1 = os_system w ''pip install conda'';
            lines_to_add = setup_lines w1;
            bashrc_path = expanduser w1 ''~/.bashrc''
        in if \<not> can_open w1 (abspath w1 bashrc_path) then (Inl OSError, w1)
           else
             let w2 = append_file w1 bashrc_path
                        ([newline] @ ''# Added by <batc>'' @ [newline]
                         @ write_lines lines_to_add
                         @ ''# End of <batc>'' @ [newline])
             in (Inr (), os_system w2 ''source ~/.bashrc''))"

section \<open>run\<close>

text \<open>
  The arguments click passes to \<^verbatim>\<open>run\<close>. \<^verbatim>\<open>--ntasks\<close> and \<^verbatim>\<open>--cpu\<close> are integers (their
  defaults are); \<^verbatim>\<open>--pwd\<close> and \<^verbatim>\<open>--conda_env\<close> are \<^verbatim>\<open>None\<close> when neither the option nor the
  environment variable of the default is there. The account option is \<open>acc_opt\<close> and the
  flag \<^verbatim>\<open>-M\<close> is \<open>m_flag\<close>.
\<close>

record run_args =
  command :: string
  job :: string
  qos :: string
  ntasks :: int
  cpu :: int
  mem :: string
  gpu :: string
  time :: string
  pwd :: "string option"
  conda_env :: "string option"
  acc_opt :: string
  part :: string
  datafile :: string
  logfile :: string
  m_flag :: bool

text \<open>Line 108: the path of the output directive, \<^verbatim>\<open>{pwd}/{logfile}\<close>.\<close>

definition output_path :: "pyval \<Rightarrow> string \<Rightarrow> string" where
  "output_path pwd_v logfile_v = py_str pwd_v @ ''/'' @ logfile_v"

text \<open>Lines 98 to 117: the f-string, each placeholder formatted as \<^verbatim>\<open>str\<close> does.\<close>

definition slurm_script ::
  "string \<Rightarrow> string \<Rightarrow> string \<Rightarrow> string \<Rightarrow> pyval \<Rightarrow> pyval \<Rightarrow> string \<Rightarrow> string \<Rightarrow> string
     \<Rightarrow> pyval \<Rightarrow> string \<Rightarrow> pyval \<Rightarrow> string \<Rightarrow> string" where
  \<open>slurm_script job_v qos_v part_v acc_v ntasks_v cpu_v mem_v gpu_v time_v pwd_v logfile_v
       conda_env_v command_v =
     ''#!/bin/bash'' @ [newline]
     @ ''#SBATCH --job-name='' @ job_v @ [newline]
     @ ''#SBATCH --qos='' @ qos_v @ [newline]
     @ ''#SBATCH --partition='' @ part_v @ [newline]
     @ ''#SBATCH --account='' @ acc_v @ [newline]
     @ ''#SBATCH --ntasks='' @ py_str ntasks_v @ [newline]
     @ ''#SBATCH --cpus-per-task='' @ py_str cpu_v @ [newline]
     @ ''#SBATCH --mem='' @ mem_v @ ''gb'' @ [newline]
     @ ''#SBATCH --gpus='' @ gpu_v @ [newline]
     @ ''#SBATCH --time='' @ time_v @ [newline]
     @ ''#SBATCH --output='' @ output_path pwd_v logfile_v
         @ '' # Redirect the output to a file'' @ [newline]
     @ [newline]
     @ ''eval "$(conda shell.bash hook)"'' @ [newline]
     @ [newline]
     @ ''# Activate conda environment'' @ [newline]
     @ ''conda activate '' @ py_str conda_env_v @ [newline]
     @ [newline]
     @ ''# Run your Python script or other commands'' @ [newline]
     @ command_v @ [newline]\<close>

text \<open>Lines 83 to 88: the command and the two file names after normalisation.\<close>

definition command_of :: "world \<Rightarrow> run_args \<Rightarrow> string" where
  "command_of w a = (if isfile w (command a) then ''python '' @ command a else command a)"

definition logfile_of :: "run_args \<Rightarrow> string" where
  "logfile_of a = (if logfile a = [] then job a @ ''.log'' else logfile a)"

definition datafile_of :: "run_args \<Rightarrow> string" where
  "datafile_of a = (if datafile a = [] then job a @ ''.data'' else datafile a)"

text \<open>Lines 92 to 117: the override of \<^verbatim>\<open>-M\<close>, then the script.\<close>

definition render_script :: "world \<Rightarrow> run_args \<Rightarrow> string" where
  "render_script w a =
     (let qos_v = (if m_flag a then ''huge-long'' else qos a);
          cpu_v = (if m_flag a then PyStr ''4'' else PyInt (cpu a));
          gpu_v = (if m_flag a then ''rtxa4000:4'' else gpu a);
          mem_v = (if m_flag a then ''32'' else mem a)
      in slurm_script (job a) qos_v (part a) (acc_opt a) (PyInt (ntasks a)) cpu_v mem_v gpu_v
           (time a) (opt_val (pwd a)) (logfile_of a) (opt_val (conda_env a)) (command_of w a))"

text \<open>Lines 134 to 154: the job id and the lines of the record.\<close>

definition pid_of :: "pyval \<Rightarrow> string" where
  "pid_of out = (case re_search_pid (py_str out) of Some d \<Rightarrow> d | None \<Rightarrow> ''Unknown PID'')"

definition record_lines :: "string \<Rightarrow> string \<Rightarrow> string \<Rightarrow> pyval \<Rightarrow> pyval \<Rightarrow> string list" where
  "record_lines pid stamp script out err =
     [''PID : '' @ pid,
      '' '',
      ''Time of job submission: '' @ stamp,
      '' '',
      ''Sbatch script:'',
      script,
      '' '',
      ''Std Out From Subprocess (If Any):'',
      py_str out,
      ''Std Err (If Any):'',
      py_str err]"

definition record_text :: "string list \<Rightarrow> string" where
  "record_text ls = [newline] @ ''# Details <batc> ::'' @ [newline] @ write_lines ls"

text \<open>
  Lines 83 to 159. The existence check raises before anything is done. The temporary
  file holds the script while sbatch runs and is removed when its block is left, also by
  the exception of a child that cannot be spawned. The record is written to
  \<^verbatim>\<open>os.path.join(os.getenv('PWD'), datafile)\<close>, which raises \<^verbatim>\<open>TypeError\<close> without \<^verbatim>\<open>PWD\<close>.
\<close>

definition run :: "world \<Rightarrow> run_args \<Rightarrow> (error + unit) \<times> world" where
  "run w a =
     (if isfile w (logfile_of a)
      then (Inl (BadOptionUsage ''--logfile''
                   ''File with the same name as logfile already exists''), w)
      else
        let script = render_script w a in
        case tmpname w of
          None \<Rightarrow> (Inl OSError, w)
        | Some t \<Rightarrow>
            let wt = w\<lparr>files := (files w)(t \<mapsto> script)\<rparr> in
            (case sbatch wt t script of
               None \<Rightarrow> (Inl OSError, wt\<lparr>files := (files wt)(t := None)\<rparr>)
             | Some (out, err) \<Rightarrow>
                 let w1 = wt\<lparr>files := (files wt)(t := None),
                             submitted := submitted wt @ [script]\<rparr>;
                     stdout = (if PyBytes out = PyNone then PyStr [] else PyBytes out);
                     stderr = (if PyBytes err = PyNone then PyStr [] else PyBytes err);
                     pid = pid_of stdout;
                     lines_to_add = record_lines pid (now w1) script stdout stderr
                 in (case getenv w1 ''PWD'' of
                       None \<Rightarrow> (Inl TypeError, w1)
                     | Some d \<Rightarrow>
                         let path = abspath w1 (join d (datafile_of a)) in
                         if \<not> can_open w1 path then (Inl OSError, w1)
                         else (Inr (), w1\<lparr>files := (files w1)(path \<mapsto>
                                 record_text lines_to_add)\<rparr>))))"

section \<open>The command line\<close>

text \<open>
  The options of \<^verbatim>\<open>run\<close> as given on the command line, \<open>None\<close> for one that is not given.
  The defaults are those of the decorators (lines 59 to 72); the module computes
  \<^verbatim>\<open>partition_acc_name\<close> when it is loaded, before click sees the command.
\<close>

record run_cli =
  cli_command :: string
  cli_job :: "string option"
  cli_qos :: "string option"
  cli_ntasks :: "int option"
  cli_cpu :: "int option"
  cli_mem :: "string option"
  cli_gpu :: "string option"
  cli_time :: "string option"
  cli_pwd :: "string option"
  cli_conda_env :: "string option"
  cli_acc :: "string option"
  cli_part :: "string option"
  cli_logfile :: "string option"
  cli_datafile :: "string option"
  cli_M :: bool

datatype invocation = Setup | Run run_cli

definition or_default :: "'a option \<Rightarrow> 'a \<Rightarrow> 'a" where
  "or_default v d = (case v of None \<Rightarrow> d | Some x \<Rightarrow> x)"

definition or_default_opt :: "'a option \<Rightarrow> 'a option \<Rightarrow> 'a option" where
  "or_default_opt v d = (case v of None \<Rightarrow> d | Some x \<Rightarrow> Some x)"

definition run_options :: "world \<Rightarrow> string \<Rightarrow> run_cli \<Rightarrow> run_args" where
  "run_options w name c =
     \<lparr>command = cli_command c,
      job = or_default (cli_job c) ''default'',
      qos = or_default (cli_qos c) ''default'',
      ntasks = or_default (cli_ntasks c) 1,
      cpu = or_default (cli_cpu c) 1,
      mem = or_default (cli_mem c) ''32'',
      gpu = or_default (cli_gpu c) ''rtxa4000:1'',
      time = or_default (cli_time c) ''10:00'',
      pwd = or_default_opt (cli_pwd c) (getenv w ''PWD''),
      conda_env = or_default_opt (cli_conda_env c) (getenv w ''$CONDA_DEFAULT_ENV''),
      acc_opt = or_default (cli_acc c) name,
      part = or_default (cli_part c) name,
      datafile = or_default (cli_datafile c) [],
      logfile = or_default (cli_logfile c) [],
      m_flag = cli_M c\<rparr>"

definition batc :: "world \<Rightarrow> invocation \<Rightarrow> (error + unit) \<times> world" where
  "batc w i =
     (case partition_acc_name (fqdn w) of
        Inl e \<Rightarrow> (Inl e, w)
      | Inr name \<Rightarrow>
          (case i of
             Setup \<Rightarrow> setup_cmd w
           | Run c \<Rightarrow> run w (run_options w name c)))"

section \<open>Example inputs\<close>

text \<open>
  A disk without links: the canonical path of an absolute path is its lexical normal form,
  without empty and \<^verbatim>\<open>.\<close> components and with each \<^verbatim>\<open>..\<close> taken with the component before
  it.
\<close>

fun split_path :: "string \<Rightarrow> string list" where
  "split_path [] = [[]]"
| "split_path (c # cs) =
     (if c = CHR ''/'' then [] # split_path cs
      else (case split_path cs of [] \<Rightarrow> [[c]] | l # ls \<Rightarrow> (c # l) # ls))"

fun norm_components :: "string list \<Rightarrow> string list \<Rightarrow> string list" where
  "norm_components acc [] = rev acc"
| "norm_components acc (c # cs) =
     (if c = [] \<or> c = ''.'' then norm_components acc cs
      else if c = ''..'' then norm_components (tl acc) cs
      else norm_components (c # acc) cs)"

definition normpath :: "string \<Rightarrow> string" where
  "normpath p =
     (case norm_components [] (split_path p) of
        [] \<Rightarrow> ''/''
      | c # cs \<Rightarrow> concat (map (\<lambda>x. CHR ''/'' # x) (c # cs)))"

text \<open>
  A login node of the cluster, in the home directory of user \<open>u\<close>, with a script
  \<^verbatim>\<open>train.py\<close> there, and an sbatch that accepts every script.
\<close>

definition example_world :: world where
  "example_world =
     \<lparr>environ = [''PWD'' \<mapsto> ''/home/u'', ''USER'' \<mapsto> ''u'', ''CONDA_DEFAULT_ENV'' \<mapsto> ''nlp''],
      cwd = ''/home/u'',
      realpath = normpath,
      fqdn = ''nexusclip00.umiacs.umd.edu'',
      pw_dir = ''/home/u'',
      now = ''2024-05-01 12:00:00.000000'',
      files = [''/home/u/train.py'' \<mapsto> ''print(1)''],
      can_open = (\<lambda>p. True),
      sbatch = (\<lambda>p s. Some (''Submitted batch job 12345'' @ [newline], [])),
      tmpname = Some ''/tmp/tmpk3v9x2'',
      systemed = [],
      submitted = [],
      echoed = []\<rparr>"

definition example_cli :: run_cli where
  "example_cli =
     \<lparr>cli_command = ''train.py'',
      cli_job = None, cli_qos = None, cli_ntasks = None, cli_cpu = None, cli_mem = None,
      cli_gpu = None, cli_time = None, cli_pwd = None, cli_conda_env = None, cli_acc = None,
      cli_part = None, cli_logfile = None, cli_datafile = None, cli_M = False\<rparr>"

definition example_args :: run_args where
  "example_args = run_options example_world ''clip'' example_cli"

section \<open>Vocabulary of the statements\<close>

text \<open>A text without a line break, and the characters the job-id pattern can match.\<close>

definition one_line :: "string \<Rightarrow> bool" where
  "one_line s \<longleftrightarrow> newline \<notin> set s"

definition pid_chars :: "char set" where
  "pid_chars = set ''Submitted batch job 0123456789''"

text \<open>The part of the template after the directives (lines 109 to 117).\<close>

definition script_tail :: "pyval \<Rightarrow> string \<Rightarrow> string" where
  \<open>script_tail conda_env_v command_v =
     [newline]
     @ ''eval "$(conda shell.bash hook)"'' @ [newline]
     @ [newline]
     @ ''# Activate conda environment'' @ [newline]
     @ ''conda activate '' @ py_str conda_env_v @ [newline]
     @ [newline]
     @ ''# Run your Python script or other commands'' @ [newline]
     @ command_v @ [newline]\<close>

section \<open>Lines of a text\<close>

lemma split_lines_nonempty: "split_lines s \<noteq> []"
  by (induction s) (auto split: list.splits)

lemma split_lines_one: "newline \<notin> set l \<Longrightarrow> split_lines l = [l]"
  by (induction l) auto

lemma split_lines_append: "newline \<notin> set l \<Longrightarrow> split_lines (l @ newline # r) = l # split_lines r"
  by (induction l) (auto split: list.splits)

lemma digit_not_newline: "k < 10 \<Longrightarrow> ''0123456789'' ! k \<noteq> newline"
proof -
  assume "k < 10"
  then have "''0123456789'' ! k \<in> set ''0123456789''" by (intro nth_mem) simp
  then show ?thesis by (auto simp: newline_def)
qed

lemma str_nat_one_line: "newline \<notin> set (str_nat n)"
proof (induction n rule: str_nat.induct)
  case (1 n)
  show ?case
  proof (cases "n < 10")
    case True
    then show ?thesis using digit_not_newline [of n] by (subst str_nat.simps) simp
  next
    case False
    then show ?thesis using 1 digit_not_newline [of "n mod 10"]
      by (subst str_nat.simps) simp
  qed
qed

lemma str_int_one_line: "newline \<notin> set (str_int i)"
  using str_nat_one_line [of "nat i"] str_nat_one_line [of "nat (- i)"]
  by (simp add: str_int_def newline_def)

section \<open>The lines of the script\<close>

lemma one_line_simps:
  "one_line []"
  "one_line (l @ m) \<longleftrightarrow> one_line l \<and> one_line m"
  "one_line (c # l) \<longleftrightarrow> c \<noteq> newline \<and> one_line l"
  by (auto simp: one_line_def)

lemma one_line_py_str_int: "one_line (py_str (PyInt i))"
  by (simp add: one_line_def str_int_one_line)

lemma split_lines_line: "one_line l \<Longrightarrow> split_lines (l @ newline # r) = l # split_lines r"
  by (simp add: one_line_def split_lines_append)

lemma slurm_script_head:
  assumes "one_line job_v" "one_line qos_v" "one_line part_v" "one_line acc_v"
    "one_line (py_str ntasks_v)" "one_line (py_str cpu_v)" "one_line mem_v" "one_line gpu_v"
    "one_line time_v" "one_line (py_str pwd_v)" "one_line logfile_v"
  shows "split_lines (slurm_script job_v qos_v part_v acc_v ntasks_v cpu_v mem_v gpu_v time_v
            pwd_v logfile_v conda_env_v command_v) =
     [''#!/bin/bash'',
      ''#SBATCH --job-name='' @ job_v,
      ''#SBATCH --qos='' @ qos_v,
      ''#SBATCH --partition='' @ part_v,
      ''#SBATCH --account='' @ acc_v,
      ''#SBATCH --ntasks='' @ py_str ntasks_v,
      ''#SBATCH --cpus-per-task='' @ py_str cpu_v,
      ''#SBATCH --mem='' @ mem_v @ ''gb'',
      ''#SBATCH --gpus='' @ gpu_v,
      ''#SBATCH --time='' @ time_v,
      ''#SBATCH --output='' @ py_str pwd_v @ ''/'' @ logfile_v @ '' # Redirect the output to a file'']
     @ split_lines (script_tail conda_env_v command_v)"
  (is "?lhs = ?hd @ ?tl")
proof -
  have lit: "one_line ''#!/bin/bash''" "one_line ''#SBATCH --job-name=''" "one_line ''#SBATCH --qos=''"
    "one_line ''#SBATCH --partition=''" "one_line ''#SBATCH --account=''" "one_line ''#SBATCH --ntasks=''"
    "one_line ''#SBATCH --cpus-per-task=''" "one_line ''#SBATCH --mem=''" "one_line ''gb''"
    "one_line ''#SBATCH --gpus=''" "one_line ''#SBATCH --time=''" "one_line ''#SBATCH --output=''"
    "one_line ''/''" "one_line '' # Redirect the output to a file''"
    by (simp_all add: one_line_def newline_def)
  have shape: "slurm_script job_v qos_v part_v acc_v ntasks_v cpu_v mem_v gpu_v time_v
            pwd_v logfile_v conda_env_v command_v =
     ''#!/bin/bash'' @ newline #
     (''#SBATCH --job-name='' @ job_v) @ newline #
     (''#SBATCH --qos='' @ qos_v) @ newline #
     (''#SBATCH --partition='' @ part_v) @ newline #
     (''#SBATCH --account='' @ acc_v) @ newline #
     (''#SBATCH --ntasks='' @ py_str ntasks_v) @ newline #
     (''#SBATCH --cpus-per-task='' @ py_str cpu_v) @ newline #
     (''#SBATCH --mem='' @ mem_v @ ''gb'') @ newline #
     (''#SBATCH --gpus='' @ gpu_v) @ newline #
     (''#SBATCH --time='' @ time_v) @ newline #
     (''#SBATCH --output='' @ py_str pwd_v @ ''/'' @ logfile_v @ '' # Redirect the output to a file'')
       @ newline # script_tail conda_env_v command_v"
    by (simp add: slurm_script_def output_path_def script_tail_def)
  have "?lhs = ''#!/bin/bash'' #
      (''#SBATCH --job-name='' @ job_v) #
      (''#SBATCH --qos='' @ qos_v) #
      (''#SBATCH --partition='' @ part_v) #
      (''#SBATCH --account='' @ acc_v) #
      (''#SBATCH --ntasks='' @ py_str ntasks_v) #
      (''#SBATCH --cpus-per-task='' @ py_str cpu_v) #
      (''#SBATCH --mem='' @ mem_v @ ''gb'') #
      (''#SBATCH --gpus='' @ gpu_v) #
      (''#SBATCH --time='' @ time_v) #
      (''#SBATCH --output='' @ py_str pwd_v @ ''/'' @ logfile_v @ '' # Redirect the output to a file'') #
      ?tl"
    unfolding shape
    by (simp only: split_lines_line one_line_simps(2) lit assms)
  then show ?thesis by simp
qed

lemma script_tail_lines:
  assumes "one_line (py_str conda_env_v)" "one_line command_v"
  shows \<open>split_lines (script_tail conda_env_v command_v) =
     [[],
      ''eval "$(conda shell.bash hook)"'',
      [],
      ''# Activate conda environment'',
      ''conda activate '' @ py_str conda_env_v,
      [],
      ''# Run your Python script or other commands'',
      command_v,
      []]\<close>
proof -
  have lit: \<open>one_line ''eval "$(conda shell.bash hook)"''\<close> "one_line ''# Activate conda environment''"
    "one_line ''conda activate ''" "one_line ''# Run your Python script or other commands''"
    by (simp_all add: one_line_def newline_def)
  have shape: \<open>script_tail conda_env_v command_v =
     [] @ newline #
     ''eval "$(conda shell.bash hook)"'' @ newline #
     [] @ newline #
     ''# Activate conda environment'' @ newline #
     (''conda activate '' @ py_str conda_env_v) @ newline #
     [] @ newline #
     ''# Run your Python script or other commands'' @ newline #
     command_v @ newline # []\<close>
    by (simp add: script_tail_def)
  show ?thesis
    unfolding shape
    by (simp only: split_lines_line one_line_simps(1,2) lit assms split_lines.simps(1))
qed

lemma one_line_command_of: "one_line (command a) \<Longrightarrow> one_line (command_of w a)"
  by (simp add: command_of_def one_line_def newline_def)

lemma one_line_logfile_of: "one_line (job a) \<Longrightarrow> one_line (logfile a) \<Longrightarrow> one_line (logfile_of a)"
  by (simp add: logfile_of_def one_line_def newline_def)

lemma one_line_opt_val_example: "one_line ''None''"
  by (simp add: one_line_def newline_def)

lemma render_script_head:
  assumes "one_line (job a)" "one_line (part a)" "one_line (acc_opt a)" "one_line (time a)"
    "one_line (py_str (opt_val (pwd a)))" "one_line (logfile_of a)"
    "m_flag a \<or> (one_line (qos a) \<and> one_line (mem a) \<and> one_line (gpu a))"
  shows "split_lines (render_script w a) =
     [''#!/bin/bash'',
      ''#SBATCH --job-name='' @ job a,
      ''#SBATCH --qos='' @ (if m_flag a then ''huge-long'' else qos a),
      ''#SBATCH --partition='' @ part a,
      ''#SBATCH --account='' @ acc_opt a,
      ''#SBATCH --ntasks='' @ str_int (ntasks a),
      ''#SBATCH --cpus-per-task='' @ (if m_flag a then ''4'' else str_int (cpu a)),
      ''#SBATCH --mem='' @ (if m_flag a then ''32'' else mem a) @ ''gb'',
      ''#SBATCH --gpus='' @ (if m_flag a then ''rtxa4000:4'' else gpu a),
      ''#SBATCH --time='' @ time a,
      ''#SBATCH --output='' @ py_str (opt_val (pwd a)) @ ''/'' @ logfile_of a
         @ '' # Redirect the output to a file'']
     @ split_lines (script_tail (opt_val (conda_env a)) (command_of w a))"
proof (cases "m_flag a")
  case True
  have lit: "one_line ''huge-long''" "one_line (py_str (PyStr ''4''))" "one_line ''32''"
    "one_line ''rtxa4000:4''"
    by (simp_all add: one_line_def newline_def)
  show ?thesis
    using True
      slurm_script_head [OF assms(1) lit(1) assms(2,3) one_line_py_str_int lit(2,3,4) assms(4,5,6),
        of "ntasks a" "opt_val (conda_env a)" "command_of w a"]
    by (simp add: render_script_def)
next
  case False
  with assms(7) have f: "one_line (qos a)" "one_line (mem a)" "one_line (gpu a)" by auto
  show ?thesis
    using False
      slurm_script_head [OF assms(1) f(1) assms(2,3) one_line_py_str_int one_line_py_str_int
        f(2,3) assms(4,5,6), of "ntasks a" "cpu a" "opt_val (conda_env a)" "command_of w a"]
    by (simp add: render_script_def)
qed

lemma render_script_suffix:
  "suffix ([newline] @ command_of w a @ [newline]) (render_script w a)"
  by (simp add: render_script_def slurm_script_def suffix_def Let_def)

section \<open>The job-id search sees through the text of bytes\<close>

lemma pid_chars_all:
  "\<forall>c\<in>set ''Submitted batch job 0123456789''.
     (32::nat) \<le> of_char c \<and> (of_char c :: nat) < 127 \<and> c \<noteq> squote \<and> c \<noteq> dquote \<and> c \<noteq> backslash"
  by (simp add: squote_def dquote_def backslash_def)

lemma pid_chars_printable:
  assumes "c \<in> pid_chars"
  shows "(32::nat) \<le> of_char c \<and> (of_char c :: nat) < 127 \<and> c \<noteq> squote \<and> c \<noteq> dquote \<and> c \<noteq> backslash"
  using assms pid_chars_all unfolding pid_chars_def by blast

lemma printable_plain:
  assumes q: "q = squote \<or> q = dquote"
    and p: "(32::nat) \<le> of_char c" "(of_char c :: nat) < 127" "c \<noteq> squote" "c \<noteq> dquote" "c \<noteq> backslash"
  shows "bytes_escape q c = [c]"
proof -
  have "c \<noteq> CHR 0x09" "c \<noteq> CHR 0x0A" "c \<noteq> CHR 0x0D" using p(1) by auto
  moreover have "c \<noteq> q" using q p by auto
  ultimately show ?thesis using p by (simp add: bytes_escape_def)
qed

lemma bytes_escape_plain:
  assumes "q = squote \<or> q = dquote" and "c \<in> pid_chars"
  shows "bytes_escape q c = [c]"
  using printable_plain [OF assms(1)] pid_chars_printable [OF assms(2)] by blast

lemma hex_digit_not_S: "k < 16 \<Longrightarrow> hex_digit k \<noteq> CHR ''S''"
proof -
  assume "k < 16"
  then have "''0123456789abcdef'' ! k \<in> set ''0123456789abcdef''" by (intro nth_mem) simp
  moreover have "\<forall>c\<in>set ''0123456789abcdef''. c \<noteq> CHR ''S''" by simp
  ultimately show ?thesis unfolding hex_digit_def by blast
qed

lemma of_char_div16: "(of_char (c::char) :: nat) div 16 < 16"
proof -
  have "(of_char c :: nat) < 256" by simp
  then show ?thesis by arith
qed

lemma bytes_escape_cases:
  assumes q: "q = squote \<or> q = dquote"
  shows "(bytes_escape q c = [c] \<and> c \<noteq> q \<and> c \<noteq> backslash)
       \<or> (\<exists>tl. bytes_escape q c = backslash # tl \<and> CHR ''S'' \<notin> set tl \<and> c \<notin> pid_chars)"
proof (cases "c = q \<or> c = backslash")
  case True
  then have "bytes_escape q c = backslash # [c]" by (simp add: bytes_escape_def)
  moreover have "c \<noteq> CHR ''S''" using True q by (auto simp: squote_def dquote_def backslash_def)
  moreover have "c \<notin> pid_chars" using True q pid_chars_printable [of c] by auto
  ultimately show ?thesis by auto
next
  case nq: False
  show ?thesis
  proof (cases "c = CHR 0x09 \<or> c = CHR 0x0A \<or> c = CHR 0x0D")
    case True
    then have "\<exists>tl. bytes_escape q c = backslash # tl \<and> CHR ''S'' \<notin> set tl"
      using nq by (auto simp: bytes_escape_def)
    moreover have "c \<notin> pid_chars" using True pid_chars_printable [of c] by auto
    ultimately show ?thesis by blast
  next
    case nc: False
    show ?thesis
    proof (cases "(of_char c :: nat) < 0x20 \<or> (0x7F :: nat) \<le> of_char c")
      case True
      then have "bytes_escape q c
          = backslash # [CHR ''x'', hex_digit (of_char c div 16), hex_digit (of_char c mod 16)]"
        using nq nc by (simp add: bytes_escape_def)
      moreover have "CHR ''S'' \<notin> set [CHR ''x'', hex_digit (of_char c div 16), hex_digit (of_char c mod 16)]"
        using hex_digit_not_S [OF of_char_div16, of c] hex_digit_not_S [of "of_char c mod 16"]
        by auto
      moreover have "c \<notin> pid_chars" using True pid_chars_printable [of c] by auto
      ultimately show ?thesis by blast
    next
      case False
      then have "bytes_escape q c = [c]" using nq nc by (simp add: bytes_escape_def)
      then show ?thesis using nq by simp
    qed
  qed
qed

lemma pattern_chars: "set pid_pattern \<subseteq> pid_chars"
  by (simp add: pid_pattern_def pid_chars_def)

lemma digit_chars: "is_digit c \<Longrightarrow> c \<in> pid_chars"
  by (simp add: is_digit_def pid_chars_def)

lemma S_in_pid_chars: "CHR ''S'' \<in> pid_chars"
  by (simp add: pid_chars_def)

lemma quote_not_pid_char: "q = squote \<or> q = dquote \<Longrightarrow> q \<notin> pid_chars"
  using pid_chars_printable [of q] by auto

lemma backslash_not_pid_char: "backslash \<notin> pid_chars"
  using pid_chars_printable [of backslash] by auto

lemma escape_plain_list:
  assumes "q = squote \<or> q = dquote" and "set p \<subseteq> pid_chars"
  shows "concat (map (bytes_escape q) p) = p"
  using assms(2) by (induction p) (simp_all add: bytes_escape_plain [OF assms(1)])

lemma prefix_escaped:
  assumes q: "q = squote \<or> q = dquote"
  shows "set p \<subseteq> pid_chars \<Longrightarrow>
    prefix p (concat (map (bytes_escape q) b) @ [q]) \<longleftrightarrow> prefix p b"
proof (induction p arbitrary: b)
  case Nil
  then show ?case by simp
next
  case (Cons x p)
  then have x: "x \<in> pid_chars" and p: "set p \<subseteq> pid_chars" by auto
  show ?case
  proof (cases b)
    case Nil
    have "x \<noteq> q" using x quote_not_pid_char [OF q] by auto
    then show ?thesis using Nil by simp
  next
    case (Cons c b')
    from bytes_escape_cases [OF q, of c] show ?thesis
    proof
      assume "bytes_escape q c = [c] \<and> c \<noteq> q \<and> c \<noteq> backslash"
      then show ?thesis using Cons Cons.IH [OF p, of b'] by simp
    next
      assume "\<exists>tl. bytes_escape q c = backslash # tl \<and> CHR ''S'' \<notin> set tl \<and> c \<notin> pid_chars"
      then obtain tl where e: "bytes_escape q c = backslash # tl" and c: "c \<notin> pid_chars" by blast
      have "x \<noteq> backslash" using x backslash_not_pid_char by auto
      moreover have "x \<noteq> c" using x c by auto
      ultimately show ?thesis using Cons e by simp
    qed
  qed
qed

lemma takeWhile_escaped:
  assumes q: "q = squote \<or> q = dquote"
  shows "takeWhile is_digit (concat (map (bytes_escape q) b) @ [q]) = takeWhile is_digit b"
proof (induction b)
  case Nil
  have "\<not> is_digit q" using digit_chars [of q] quote_not_pid_char [OF q] by blast
  then show ?case by simp
next
  case (Cons c b)
  from bytes_escape_cases [OF q, of c] show ?case
  proof
    assume "bytes_escape q c = [c] \<and> c \<noteq> q \<and> c \<noteq> backslash"
    then show ?thesis using Cons by simp
  next
    assume "\<exists>tl. bytes_escape q c = backslash # tl \<and> CHR ''S'' \<notin> set tl \<and> c \<notin> pid_chars"
    then obtain tl where e: "bytes_escape q c = backslash # tl" and c: "c \<notin> pid_chars" by blast
    have "\<not> is_digit backslash" using digit_chars [of backslash] backslash_not_pid_char by blast
    moreover have "\<not> is_digit c" using digit_chars [of c] c by blast
    ultimately show ?thesis using e by simp
  qed
qed

lemma match_pid_escaped:
  assumes q: "q = squote \<or> q = dquote"
  shows "match_pid (concat (map (bytes_escape q) b) @ [q]) = match_pid b"
proof (cases "prefix pid_pattern b")
  case True
  then obtain r where b: "b = pid_pattern @ r" by (auto simp: prefix_def)
  have e: "concat (map (bytes_escape q) b) @ [q]
      = pid_pattern @ (concat (map (bytes_escape q) r) @ [q])"
    using escape_plain_list [OF q pattern_chars] by (simp add: b)
  show ?thesis
    unfolding e unfolding b
    by (simp add: match_pid_def takeWhile_escaped [OF q])
next
  case False
  then have "\<not> prefix pid_pattern (concat (map (bytes_escape q) b) @ [q])"
    using prefix_escaped [OF q pattern_chars, of b] by simp
  with False show ?thesis by (simp add: match_pid_def)
qed

lemma match_pid_head: "x \<noteq> CHR ''S'' \<Longrightarrow> match_pid (x # t) = None"
  by (simp add: match_pid_def pid_pattern_def)

lemma match_pid_Nil: "match_pid [] = None"
  by (simp add: match_pid_def pid_pattern_def)

lemma search_skip: "CHR ''S'' \<notin> set xs \<Longrightarrow> re_search_pid (xs @ r) = re_search_pid r"
proof (induction xs)
  case Nil
  then show ?case by simp
next
  case (Cons x xs)
  then have "x \<noteq> CHR ''S''" by auto
  then have "match_pid (x # xs @ r) = None" by (rule match_pid_head)
  then show ?case using Cons by simp
qed

lemma search_escaped:
  assumes q: "q = squote \<or> q = dquote"
  shows "re_search_pid (concat (map (bytes_escape q) b) @ [q]) = re_search_pid b"
proof (induction b)
  case Nil
  have "q \<noteq> CHR ''S''" using quote_not_pid_char [OF q] S_in_pid_chars by auto
  then show ?case by (simp add: match_pid_head match_pid_Nil)
next
  case (Cons c b)
  from bytes_escape_cases [OF q, of c] show ?case
  proof
    assume p: "bytes_escape q c = [c] \<and> c \<noteq> q \<and> c \<noteq> backslash"
    have "match_pid (c # concat (map (bytes_escape q) b) @ [q]) = match_pid (c # b)"
      using match_pid_escaped [OF q, of "c # b"] p by simp
    then show ?thesis using p Cons by (simp split: option.split)
  next
    assume "\<exists>tl. bytes_escape q c = backslash # tl \<and> CHR ''S'' \<notin> set tl \<and> c \<notin> pid_chars"
    then obtain tl where e: "bytes_escape q c = backslash # tl" and tl: "CHR ''S'' \<notin> set tl"
      and c: "c \<notin> pid_chars" by blast
    have "CHR ''S'' \<notin> set (backslash # tl)" using tl by (simp add: backslash_def)
    then have "re_search_pid ((backslash # tl) @ (concat (map (bytes_escape q) b) @ [q]))
        = re_search_pid (concat (map (bytes_escape q) b) @ [q])"
      by (rule search_skip)
    moreover have "c \<noteq> CHR ''S''" using c S_in_pid_chars by auto
    ultimately show ?thesis using e Cons by (simp add: match_pid_head)
  qed
qed

lemma bytes_quote_cases: "bytes_quote b = squote \<or> bytes_quote b = dquote"
  by (simp add: bytes_quote_def)

lemma search_bytes_repr: "re_search_pid (bytes_repr b) = re_search_pid b"
proof -
  let ?q = "bytes_quote b"
  have "?q \<noteq> CHR ''S''" using quote_not_pid_char [OF bytes_quote_cases, of b] S_in_pid_chars by auto
  then have "CHR ''S'' \<notin> set [CHR ''b'', ?q]" by simp
  then have "re_search_pid ([CHR ''b'', ?q] @ (concat (map (bytes_escape ?q) b) @ [?q]))
      = re_search_pid (concat (map (bytes_escape ?q) b) @ [?q])"
    by (rule search_skip)
  then show ?thesis
    using search_escaped [OF bytes_quote_cases, of b] by (simp add: bytes_repr_def)
qed

section \<open>What the job-id search finds, and the head of the record\<close>

lemma takeWhile_stop: "post = [] \<or> \<not> P (hd post) \<Longrightarrow> takeWhile P post = []"
  by (cases post) auto

lemma match_pid_occurrence:
  assumes "d \<noteq> []" and "\<forall>c\<in>set d. is_digit c" and "post = [] \<or> \<not> is_digit (hd post)"
  shows "match_pid (pid_pattern @ d @ post) = Some d"
proof -
  have "takeWhile is_digit (d @ post) = d"
    using assms(2) assms(3) takeWhile_stop [of post is_digit] by (simp add: takeWhile_append2)
  then show ?thesis using assms(1) by (simp add: match_pid_def)
qed

lemma match_pid_SomeD:
  assumes "match_pid t = Some d"
  shows "\<exists>c rest. is_digit c \<and> t = pid_pattern @ c # rest"
proof -
  from assms have p: "prefix pid_pattern t"
    and n: "takeWhile is_digit (drop (length pid_pattern) t) \<noteq> []"
    by (auto simp: match_pid_def split: if_splits)
  from p obtain r where r: "t = pid_pattern @ r" by (auto simp: prefix_def)
  with n have "takeWhile is_digit r \<noteq> []" by simp
  then obtain c rest where "r = c # rest" "is_digit c"
    by (cases r) (auto split: if_splits)
  with r show ?thesis by blast
qed

lemma search_None:
  "(\<forall>s. suffix s t \<longrightarrow> match_pid s = None) \<Longrightarrow> re_search_pid t = None"
proof (induction t)
  case Nil
  then show ?case by simp
next
  case (Cons c cs)
  have "match_pid (c # cs) = None" using Cons.prems by simp
  moreover have "re_search_pid cs = None" using Cons by (simp add: suffix_Cons)
  ultimately show ?case by simp
qed

lemma search_first:
  assumes "match_pid s = Some d"
  shows "(\<forall>s'. suffix s' (pre @ s) \<and> length s < length s' \<longrightarrow> match_pid s' = None)
    \<Longrightarrow> re_search_pid (pre @ s) = Some d"
proof (induction pre)
  case Nil
  from assms have "s \<noteq> []" using match_pid_Nil by auto
  then obtain c cs where "s = c # cs" by (cases s) auto
  with assms show ?case by simp
next
  case (Cons x pre)
  have "match_pid (x # pre @ s) = None" using Cons.prems by simp
  moreover have "re_search_pid (pre @ s) = Some d"
    using Cons by (simp add: suffix_Cons)
  ultimately show ?case by simp
qed

lemma search_leftmost_occurrence:
  assumes "d \<noteq> []" and "\<forall>c\<in>set d. is_digit c" and "post = [] \<or> \<not> is_digit (hd post)"
    and first: "\<forall>pre' c rest. is_digit c \<and> pre @ pid_pattern @ d @ post = pre' @ pid_pattern @ c # rest
           \<longrightarrow> length pre \<le> length pre'"
  shows "re_search_pid (pre @ pid_pattern @ d @ post) = Some d"
proof (rule search_first [OF match_pid_occurrence [OF assms(1-3)]], intro allI impI)
  fix s'
  assume s': "suffix s' (pre @ pid_pattern @ d @ post) \<and> length (pid_pattern @ d @ post) < length s'"
  then obtain pre' where e: "pre @ pid_pattern @ d @ post = pre' @ s'" by (auto simp: suffix_def)
  show "match_pid s' = None"
  proof (rule ccontr)
    assume "match_pid s' \<noteq> None"
    then obtain d' where "match_pid s' = Some d'" by auto
    from match_pid_SomeD [OF this] obtain c rest where
      c: "is_digit c" "s' = pid_pattern @ c # rest" by blast
    with e first have "length pre \<le> length pre'" by blast
    moreover have "length pre + length (pid_pattern @ d @ post) = length pre' + length s'"
      using arg_cong [OF e, of length] by simp
    ultimately show False using s' by simp
  qed
qed

lemma search_no_occurrence:
  assumes "\<not> (\<exists>pre c rest. is_digit c \<and> t = pre @ pid_pattern @ c # rest)"
  shows "re_search_pid t = None"
proof (rule search_None, intro allI impI)
  fix s assume "suffix s t"
  then obtain pre where t: "t = pre @ s" by (auto simp: suffix_def)
  show "match_pid s = None"
  proof (rule ccontr)
    assume "match_pid s \<noteq> None"
    then obtain d where "match_pid s = Some d" by auto
    from match_pid_SomeD [OF this] t assms show False by blast
  qed
qed

lemma write_lines_acc:
  "foldl (\<lambda>buf line. buf @ line @ [newline]) acc ls = acc @ concat (map (\<lambda>l. l @ [newline]) ls)"
  by (induction ls arbitrary: acc) simp_all

lemma write_lines_Cons: "write_lines (l # ls) = l @ newline # write_lines ls"
  by (simp add: write_lines_def write_lines_acc)

lemma record_head:
  assumes "one_line pid"
  shows "take 3 (split_lines (record_text (record_lines pid stamp script out err)))
    = [[], ''# Details <batc> ::'', ''PID : '' @ pid]"
proof -
  have lit: "one_line ''# Details <batc> ::''" "one_line ''PID : ''"
    by (simp_all add: one_line_def newline_def)
  obtain ls where ls: "record_lines pid stamp script out err = (''PID : '' @ pid) # ls"
    by (simp add: record_lines_def)
  have shape: "record_text (record_lines pid stamp script out err)
      = [] @ newline # ''# Details <batc> ::'' @ newline # (''PID : '' @ pid) @ newline # write_lines ls"
    by (simp add: record_text_def ls write_lines_Cons)
  have "split_lines (record_text (record_lines pid stamp script out err))
      = [] # ''# Details <batc> ::'' # (''PID : '' @ pid) # split_lines (write_lines ls)"
    unfolding shape
    by (simp only: split_lines_line one_line_simps(1,2) lit assms)
  then show ?thesis by simp
qed

lemma one_line_digits: "\<forall>c\<in>set d. is_digit c \<Longrightarrow> one_line d"
proof -
  have "\<not> is_digit newline" by (simp add: is_digit_def newline_def)
  then show "\<forall>c\<in>set d. is_digit c \<Longrightarrow> one_line d" by (auto simp: one_line_def)
qed

lemma pid_of_bytes: "pid_of (PyBytes out) = (case re_search_pid out of Some d \<Rightarrow> d | None \<Rightarrow> ''Unknown PID'')"
  by (simp add: pid_of_def search_bytes_repr)

section \<open>Facts about run\<close>

lemma logfile_of_nonempty: "logfile_of a \<noteq> []"
  by (simp add: logfile_of_def)

lemma isfile_logfile: "isfile w (logfile_of a) \<longleftrightarrow> files w (abspath w (logfile_of a)) \<noteq> None"
  by (simp add: isfile_def logfile_of_nonempty)

lemma partition_acc_name_fails:
  assumes "\<not> (\<exists>s rest. s \<noteq> [] \<and> (\<forall>c\<in>set s. is_alpha c) \<and> host = ''nexus'' @ s @ rest)"
  shows "partition_acc_name host = Inl AttributeError"
proof (rule ccontr)
  assume "partition_acc_name host \<noteq> Inl AttributeError"
  then have p: "prefix ''nexus'' host" and t: "takeWhile is_alpha (drop 5 host) \<noteq> []"
    by (auto simp: partition_acc_name_def split: if_splits)
  from p obtain r where r: "host = ''nexus'' @ r" by (auto simp: prefix_def)
  then have d: "drop 5 host = r" by simp
  then have "host = ''nexus'' @ takeWhile is_alpha r @ dropWhile is_alpha r" using r by simp
  moreover have "\<forall>c\<in>set (takeWhile is_alpha r). is_alpha c" by (auto dest: set_takeWhileD)
  moreover have "takeWhile is_alpha r \<noteq> []" using t d by simp
  ultimately show False using assms by blast
qed

lemmas example_defs = example_world_def example_args_def example_cli_def run_options_def
  or_default_def or_default_opt_def getenv_def

lemma run_after_submission:
  assumes "files w (abspath w (logfile_of a)) = None" and "tmpname w = Some t"
    and "sbatch w t (render_script w a) = Some (out, err)"
  shows "run w a =
    (case getenv w ''PWD'' of
       None \<Rightarrow> (Inl TypeError,
                w\<lparr>files := (files w)(t := None), submitted := submitted w @ [render_script w a]\<rparr>)
     | Some d \<Rightarrow>
         if \<not> can_open w (abspath w (join d (datafile_of a)))
         then (Inl OSError,
                w\<lparr>files := (files w)(t := None), submitted := submitted w @ [render_script w a]\<rparr>)
         else (Inr (),
                w\<lparr>files := (files w)(t := None,
                       abspath w (join d (datafile_of a)) \<mapsto>
                         record_text (record_lines (pid_of (PyBytes out)) (now w)
                           (render_script w a) (PyBytes out) (PyBytes err))),
                   submitted := submitted w @ [render_script w a]\<rparr>))"
  using assms
  by (simp add: run_def isfile_logfile getenv_def abspath_def Let_def split: option.split)


lemma example_paths:
  "abspath example_world ''default.log'' = ''/home/u/default.log''"
  "abspath example_world ''train.py'' = ''/home/u/train.py''"
  "abspath example_world ''python train.py --flag'' = ''/home/u/python train.py --flag''"
  "abspath example_world ''/home/u/default.data'' = ''/home/u/default.data''"
  by (simp_all add: abspath_def join_def suffix_to_prefix normpath_def example_world_def)

lemma example_logfile: "abspath example_world (logfile_of example_args) = ''/home/u/default.log''"
  by (simp add: example_defs logfile_of_def abspath_def join_def suffix_to_prefix normpath_def)

lemma example_datafile: "datafile_of example_args = ''default.data''"
  by (simp add: example_defs datafile_of_def)


lemma run_rejects_iff:
  "fst (run w a) = Inl (BadOptionUsage ''--logfile''
       ''File with the same name as logfile already exists'')
   \<longleftrightarrow> files w (abspath w (logfile_of a)) \<noteq> None"
  by (auto simp: run_def isfile_logfile Let_def split: option.splits if_splits prod.splits)

lemma slurm_script_output:
  "\<exists>pre. slurm_script job_v qos_v part_v acc_v ntasks_v cpu_v mem_v gpu_v time_v pwd_v logfile_v
          conda_env_v command_v
     = pre @ ''#SBATCH --output='' @ output_path pwd_v logfile_v
         @ '' # Redirect the output to a file'' @ newline # script_tail conda_env_v command_v"
  by (rule exI [of _ "''#!/bin/bash'' @ [newline]
       @ ''#SBATCH --job-name='' @ job_v @ [newline]
       @ ''#SBATCH --qos='' @ qos_v @ [newline]
       @ ''#SBATCH --partition='' @ part_v @ [newline]
       @ ''#SBATCH --account='' @ acc_v @ [newline]
       @ ''#SBATCH --ntasks='' @ py_str ntasks_v @ [newline]
       @ ''#SBATCH --cpus-per-task='' @ py_str cpu_v @ [newline]
       @ ''#SBATCH --mem='' @ mem_v @ ''gb'' @ [newline]
       @ ''#SBATCH --gpus='' @ gpu_v @ [newline]
       @ ''#SBATCH --time='' @ time_v @ [newline]"])
     (simp add: slurm_script_def script_tail_def)

lemma render_script_output:
  "\<exists>pre. render_script w a
     = pre @ ''#SBATCH --output='' @ output_path (opt_val (pwd a)) (logfile_of a)
         @ '' # Redirect the output to a file''
         @ newline # script_tail (opt_val (conda_env a)) (command_of w a)"
  unfolding render_script_def Let_def by (rule slurm_script_output)


section \<open>Facts about the example inputs\<close>

lemma str_int_1: "str_int 1 = ''1''"
  by (simp add: str_int_def str_nat.simps)

lemma example_args_eq:
  "example_args = \<lparr>command = ''train.py'', job = ''default'', qos = ''default'', ntasks = 1,
      cpu = 1, mem = ''32'', gpu = ''rtxa4000:1'', time = ''10:00'', pwd = Some ''/home/u'',
      conda_env = None, acc_opt = ''clip'', part = ''clip'', datafile = [], logfile = [],
      m_flag = False\<rparr>"
  by (simp add: example_defs)

lemma example_one_line:
  "one_line (job example_args)" "one_line (qos example_args)" "one_line (part example_args)"
  "one_line (acc_opt example_args)" "one_line (mem example_args)" "one_line (gpu example_args)"
  "one_line (time example_args)" "one_line (py_str (opt_val (pwd example_args)))"
  "one_line (logfile_of example_args)" "one_line (py_str (opt_val (conda_env example_args)))"
  "one_line (command example_args)"
  by (simp_all add: example_args_eq one_line_def newline_def opt_val_def logfile_of_def)

lemma example_command: "command_of example_world example_args = ''python train.py''"
  by (simp add: command_of_def isfile_def example_paths example_args_eq)
     (simp add: example_world_def)


section \<open>The claims\<close>

text \<open>
  C1. When a regular file already exists at the path of the log file (the one given, or
  the one derived from the job name), \<open>run\<close> raises the usage error of \<^verbatim>\<open>--logfile\<close> and
  leaves the world as it was: nothing is handed to sbatch and no file is created or changed,
  the record file included.
\<close>

theorem run_rejects_existing_logfile:
  assumes "files w (abspath w (logfile_of a)) \<noteq> None"
  shows "run w a = (Inl (BadOptionUsage ''--logfile''
                      ''File with the same name as logfile already exists''), w)"
  using assms by (simp add: run_def isfile_logfile)

theorem run_rejects_existing_logfile_witness:
  "files (example_world\<lparr>files := (files example_world)(''/home/u/default.log'' \<mapsto> ''old'')\<rparr>)
     (abspath (example_world\<lparr>files := (files example_world)(''/home/u/default.log'' \<mapsto> ''old'')\<rparr>)
        (logfile_of example_args)) \<noteq> None
   \<and> run (example_world\<lparr>files := (files example_world)(''/home/u/default.log'' \<mapsto> ''old'')\<rparr>)
        example_args
     = (Inl (BadOptionUsage ''--logfile'' ''File with the same name as logfile already exists''),
        example_world\<lparr>files := (files example_world)(''/home/u/default.log'' \<mapsto> ''old'')\<rparr>)"
proof -
  let ?w = "example_world\<lparr>files := (files example_world)(''/home/u/default.log'' \<mapsto> ''old'')\<rparr>"
  have h: "files ?w (abspath ?w (logfile_of example_args)) \<noteq> None"
    by (simp add: example_world_def example_args_def example_cli_def run_options_def
        or_default_def logfile_of_def abspath_def join_def suffix_to_prefix normpath_def)
  from run_rejects_existing_logfile [OF h] h show ?thesis by simp
qed

text \<open>
  C2. With \<^verbatim>\<open>-M\<close> the script does not depend on the values given for qos, cpu, gpu and mem:
  changing them changes nothing. When the other texts hold no line break, the first eleven
  lines of the script are the interpreter line and the ten directives, with qos
  \<^verbatim>\<open>huge-long\<close>, \<^verbatim>\<open>cpus-per-task\<close> 4, mem \<^verbatim>\<open>32gb\<close> and gpus \<^verbatim>\<open>rtxa4000:4\<close>, and with the
  job name, partition, account, ntasks, time and output path as the caller gave them.
\<close>

theorem maximize_overrides_resources:
  assumes "m_flag a"
  shows "render_script w (a\<lparr>qos := q, cpu := c, gpu := g, mem := mm\<rparr>) = render_script w a
    \<and> (one_line (job a) \<and> one_line (part a) \<and> one_line (acc_opt a) \<and> one_line (time a)
         \<and> one_line (py_str (opt_val (pwd a))) \<and> one_line (logfile_of a) \<longrightarrow>
       take 11 (split_lines (render_script w a)) =
        [''#!/bin/bash'',
         ''#SBATCH --job-name='' @ job a,
         ''#SBATCH --qos=huge-long'',
         ''#SBATCH --partition='' @ part a,
         ''#SBATCH --account='' @ acc_opt a,
         ''#SBATCH --ntasks='' @ str_int (ntasks a),
         ''#SBATCH --cpus-per-task=4'',
         ''#SBATCH --mem=32gb'',
         ''#SBATCH --gpus=rtxa4000:4'',
         ''#SBATCH --time='' @ time a,
         ''#SBATCH --output='' @ py_str (opt_val (pwd a)) @ ''/'' @ logfile_of a
            @ '' # Redirect the output to a file''])"
proof (intro conjI impI)
  show "render_script w (a\<lparr>qos := q, cpu := c, gpu := g, mem := mm\<rparr>) = render_script w a"
    using assms by (simp add: render_script_def logfile_of_def command_of_def)
next
  assume h: "one_line (job a) \<and> one_line (part a) \<and> one_line (acc_opt a) \<and> one_line (time a)
         \<and> one_line (py_str (opt_val (pwd a))) \<and> one_line (logfile_of a)"
  have "m_flag a \<or> (one_line (qos a) \<and> one_line (mem a) \<and> one_line (gpu a))"
    using assms by simp
  from render_script_head [OF _ _ _ _ _ _ this, of w] h assms
  show "take 11 (split_lines (render_script w a)) =
        [''#!/bin/bash'',
         ''#SBATCH --job-name='' @ job a,
         ''#SBATCH --qos=huge-long'',
         ''#SBATCH --partition='' @ part a,
         ''#SBATCH --account='' @ acc_opt a,
         ''#SBATCH --ntasks='' @ str_int (ntasks a),
         ''#SBATCH --cpus-per-task=4'',
         ''#SBATCH --mem=32gb'',
         ''#SBATCH --gpus=rtxa4000:4'',
         ''#SBATCH --time='' @ time a,
         ''#SBATCH --output='' @ py_str (opt_val (pwd a)) @ ''/'' @ logfile_of a
            @ '' # Redirect the output to a file'']"
    by simp
qed

theorem maximize_overrides_resources_witness:
  "take 11 (split_lines (render_script example_world
      (example_args\<lparr>m_flag := True, qos := ''scavenger'', cpu := 16, mem := ''128'',
         gpu := ''a100:8''\<rparr>))) =
     [''#!/bin/bash'',
      ''#SBATCH --job-name=default'',
      ''#SBATCH --qos=huge-long'',
      ''#SBATCH --partition=clip'',
      ''#SBATCH --account=clip'',
      ''#SBATCH --ntasks=1'',
      ''#SBATCH --cpus-per-task=4'',
      ''#SBATCH --mem=32gb'',
      ''#SBATCH --gpus=rtxa4000:4'',
      ''#SBATCH --time=10:00'',
      ''#SBATCH --output=/home/u/default.log # Redirect the output to a file'']"
proof -
  let ?a = "example_args\<lparr>m_flag := True, qos := ''scavenger'', cpu := 16, mem := ''128'',
         gpu := ''a100:8''\<rparr>"
  have l: "logfile_of ?a = logfile_of example_args" by (simp add: logfile_of_def)
  have m: "m_flag ?a" by simp
  have h: "one_line (job ?a)" "one_line (part ?a)" "one_line (acc_opt ?a)"
    "one_line (time ?a)" "one_line (py_str (opt_val (pwd ?a)))" "one_line (logfile_of ?a)"
    using example_one_line by (simp_all add: l)
  from maximize_overrides_resources [OF m, of example_world] h
  have "take 11 (split_lines (render_script example_world ?a)) =
        [''#!/bin/bash'',
         ''#SBATCH --job-name='' @ job ?a,
         ''#SBATCH --qos=huge-long'',
         ''#SBATCH --partition='' @ part ?a,
         ''#SBATCH --account='' @ acc_opt ?a,
         ''#SBATCH --ntasks='' @ str_int (ntasks ?a),
         ''#SBATCH --cpus-per-task=4'',
         ''#SBATCH --mem=32gb'',
         ''#SBATCH --gpus=rtxa4000:4'',
         ''#SBATCH --time='' @ time ?a,
         ''#SBATCH --output='' @ py_str (opt_val (pwd ?a)) @ ''/'' @ logfile_of ?a
            @ '' # Redirect the output to a file'']"
    by blast
  then show ?thesis
    by (simp add: example_args_eq opt_val_def logfile_of_def str_int_1)
qed

text \<open>
  C3. The script ends with a line break, the command and a line break; the command is the
  one given with \<^verbatim>\<open>python \<close> before it when it names an existing regular file, and the one
  given otherwise.
\<close>

theorem command_is_last_line:
  "(isfile w (command a) \<longrightarrow>
      suffix ([newline] @ ''python '' @ command a @ [newline]) (render_script w a))
   \<and> (\<not> isfile w (command a) \<longrightarrow>
      suffix ([newline] @ command a @ [newline]) (render_script w a))"
  using render_script_suffix [of w a] by (simp add: command_of_def split: if_splits)

theorem command_is_last_line_witness:
  "isfile example_world ''train.py''
   \<and> suffix ([newline] @ ''python train.py'' @ [newline]) (render_script example_world example_args)
   \<and> \<not> isfile example_world ''python train.py --flag''
   \<and> suffix ([newline] @ ''python train.py --flag'' @ [newline])
        (render_script example_world (example_args\<lparr>command := ''python train.py --flag''\<rparr>))"
proof -
  let ?b = "example_args\<lparr>command := ''python train.py --flag''\<rparr>"
  have c: "command example_args = ''train.py''" "command ?b = ''python train.py --flag''"
    by (simp_all add: example_args_eq)
  have f1: "isfile example_world ''train.py''"
    by (simp add: isfile_def abspath_def join_def suffix_to_prefix normpath_def example_world_def)
  have f2: "\<not> isfile example_world ''python train.py --flag''"
    by (simp add: isfile_def abspath_def join_def suffix_to_prefix normpath_def example_world_def)
  from command_is_last_line [of example_world example_args]
    command_is_last_line [of example_world ?b] f1 f2
  show ?thesis by (simp add: c)
qed

text \<open>
  C4. When the job is submitted and the record can be written, \<open>run\<close> returns normally,
  whatever sbatch printed. If its stdout holds \<^verbatim>\<open>Submitted batch job \<close> followed by digits,
  then for the leftmost such place and the whole run of digits \<open>d\<close> there, the third line
  of the record file is \<^verbatim>\<open>PID : \<close> followed by \<open>d\<close>; if stdout holds no such place, that
  line is \<^verbatim>\<open>PID : Unknown PID\<close>.
\<close>

theorem pid_recorded:
  assumes "files w (abspath w (logfile_of a)) = None" and "tmpname w = Some t"
    and "sbatch w t (render_script w a) = Some (out, err)"
    and "getenv w ''PWD'' = Some dir" and "can_open w (abspath w (join dir (datafile_of a)))"
  shows "fst (run w a) = Inr ()
    \<and> (\<forall>pre d post.
          out = pre @ ''Submitted batch job '' @ d @ post
          \<and> d \<noteq> [] \<and> (\<forall>c\<in>set d. is_digit c) \<and> (post = [] \<or> \<not> is_digit (hd post))
          \<and> (\<forall>pre' c rest. is_digit c \<and> out = pre' @ ''Submitted batch job '' @ c # rest
                 \<longrightarrow> length pre \<le> length pre')
          \<longrightarrow> (\<exists>txt. files (snd (run w a)) (abspath w (join dir (datafile_of a))) = Some txt
                 \<and> take 3 (split_lines txt) = [[], ''# Details <batc> ::'', ''PID : '' @ d]))
    \<and> (\<not> (\<exists>pre c rest. is_digit c \<and> out = pre @ ''Submitted batch job '' @ c # rest)
          \<longrightarrow> (\<exists>txt. files (snd (run w a)) (abspath w (join dir (datafile_of a))) = Some txt
                 \<and> take 3 (split_lines txt)
                     = [[], ''# Details <batc> ::'', ''PID : Unknown PID'']))"
proof -
  let ?path = "abspath w (join dir (datafile_of a))"
  let ?txt = "record_text (record_lines (pid_of (PyBytes out)) (now w) (render_script w a)
      (PyBytes out) (PyBytes err))"
  have r: "run w a = (Inr (),
      w\<lparr>files := (files w)(t := None, ?path \<mapsto> ?txt),
        submitted := submitted w @ [render_script w a]\<rparr>)"
    using run_after_submission [OF assms(1-3)] assms(4,5) by simp
  then have f: "files (snd (run w a)) ?path = Some ?txt" by simp
  have ok: "fst (run w a) = Inr ()" using r by simp
  have pos: "\<exists>txt. files (snd (run w a)) ?path = Some txt
        \<and> take 3 (split_lines txt) = [[], ''# Details <batc> ::'', ''PID : '' @ d]"
    if o: "out = pre @ ''Submitted batch job '' @ d @ post"
      and d: "d \<noteq> []" "\<forall>c\<in>set d. is_digit c" "post = [] \<or> \<not> is_digit (hd post)"
      and first: "\<forall>pre' c rest. is_digit c \<and> out = pre' @ ''Submitted batch job '' @ c # rest
                 \<longrightarrow> length pre \<le> length pre'"
    for pre d post
  proof -
    have o': "out = pre @ pid_pattern @ d @ post" using o by (simp add: pid_pattern_def)
    have "\<forall>pre' c rest. is_digit c \<and> pre @ pid_pattern @ d @ post = pre' @ pid_pattern @ c # rest
           \<longrightarrow> length pre \<le> length pre'"
      using first unfolding o' by (simp add: pid_pattern_def)
    from search_leftmost_occurrence [OF d this]
    have "pid_of (PyBytes out) = d" by (simp add: pid_of_bytes o')
    then show ?thesis using f record_head [OF one_line_digits [OF d(2)]] by simp
  qed
  have neg: "\<exists>txt. files (snd (run w a)) ?path = Some txt
        \<and> take 3 (split_lines txt) = [[], ''# Details <batc> ::'', ''PID : Unknown PID'']"
    if n: "\<not> (\<exists>pre c rest. is_digit c \<and> out = pre @ ''Submitted batch job '' @ c # rest)"
  proof -
    have "\<not> (\<exists>pre c rest. is_digit c \<and> out = pre @ pid_pattern @ c # rest)"
      using n by (simp add: pid_pattern_def)
    from search_no_occurrence [OF this]
    have p: "pid_of (PyBytes out) = ''Unknown PID''" by (simp add: pid_of_bytes)
    have "one_line ''Unknown PID''" by (simp add: one_line_def newline_def)
    from record_head [OF this] show ?thesis using f p by simp
  qed
  from ok pos neg show ?thesis by blast
qed

theorem pid_recorded_witness:
  "(\<exists>txt. files (snd (run example_world example_args)) ''/home/u/default.data'' = Some txt
        \<and> take 3 (split_lines txt) = [[], ''# Details <batc> ::'', ''PID : 12345''])
   \<and> fst (run example_world example_args) = Inr ()
   \<and> (\<exists>txt. files (snd (run (example_world\<lparr>sbatch := (\<lambda>p s. Some ([], ''sbatch: error''))\<rparr>)
          example_args)) ''/home/u/default.data'' = Some txt
        \<and> take 3 (split_lines txt) = [[], ''# Details <batc> ::'', ''PID : Unknown PID''])
   \<and> fst (run (example_world\<lparr>sbatch := (\<lambda>p s. Some ([], ''sbatch: error''))\<rparr>) example_args)
       = Inr ()"
proof -
  let ?v = "example_world\<lparr>sbatch := (\<lambda>p s. Some ([], ''sbatch: error''))\<rparr>"
  have p: "abspath example_world (join ''/home/u'' (datafile_of example_args)) = ''/home/u/default.data''"
    by (simp add: example_datafile join_def suffix_to_prefix example_paths)
  have g1: "files example_world (abspath example_world (logfile_of example_args)) = None"
    by (simp add: example_logfile) (simp add: example_world_def)
  have g2: "tmpname example_world = Some ''/tmp/tmpk3v9x2''" by (simp add: example_world_def)
  have g3: "sbatch example_world ''/tmp/tmpk3v9x2'' (render_script example_world example_args)
      = Some (''Submitted batch job 12345'' @ [newline], [])"
    by (simp add: example_world_def)
  have g4: "getenv example_world ''PWD'' = Some ''/home/u''" by (simp add: example_defs)
  have g5: "can_open example_world (abspath example_world (join ''/home/u'' (datafile_of example_args)))"
    by (simp add: example_world_def)
  have h1: "files ?v (abspath ?v (logfile_of example_args)) = None"
    using g1 by (simp add: abspath_def)
  have h2: "tmpname ?v = Some ''/tmp/tmpk3v9x2''" by (simp add: example_world_def)
  have h3: "sbatch ?v ''/tmp/tmpk3v9x2'' (render_script ?v example_args)
      = Some ([], ''sbatch: error'')"
    by simp
  have h4: "getenv ?v ''PWD'' = Some ''/home/u''" by (simp add: example_defs)
  have h5: "can_open ?v (abspath ?v (join ''/home/u'' (datafile_of example_args)))"
    by (simp add: example_world_def)
  have q: "abspath ?v (join ''/home/u'' (datafile_of example_args)) = ''/home/u/default.data''"
    using p by (simp add: abspath_def)
  have occ: "''Submitted batch job 12345'' @ [newline]
          = [] @ ''Submitted batch job '' @ ''12345'' @ [newline]
      \<and> ''12345'' \<noteq> [] \<and> (\<forall>c\<in>set ''12345''. is_digit c)
      \<and> ([newline] = [] \<or> \<not> is_digit (hd [newline]))
      \<and> (\<forall>pre' c rest. is_digit c
            \<and> ''Submitted batch job 12345'' @ [newline] = pre' @ ''Submitted batch job '' @ c # rest
            \<longrightarrow> length ([]::string) \<le> length pre')"
    by (simp add: is_digit_def newline_def)
  have none: "\<not> (\<exists>pre c rest. is_digit c \<and> [] = pre @ ''Submitted batch job '' @ c # rest)"
    by simp
  from pid_recorded [OF g1 g2 g3 g4 g5] occ
  have a: "fst (run example_world example_args) = Inr ()
    \<and> (\<exists>txt. files (snd (run example_world example_args))
            (abspath example_world (join ''/home/u'' (datafile_of example_args))) = Some txt
        \<and> take 3 (split_lines txt) = [[], ''# Details <batc> ::'', ''PID : '' @ ''12345''])"
    by blast
  from pid_recorded [OF h1 h2 h3 h4 h5] none
  have b: "fst (run ?v example_args) = Inr ()
    \<and> (\<exists>txt. files (snd (run ?v example_args))
            (abspath ?v (join ''/home/u'' (datafile_of example_args))) = Some txt
        \<and> take 3 (split_lines txt) = [[], ''# Details <batc> ::'', ''PID : Unknown PID''])"
    by blast
  from a b show ?thesis unfolding p q by simp
qed

text \<open>
  C5, as stated, fails on the output directive: its line carries a comment after the path,
  so it is not \<^verbatim>\<open>#SBATCH --output=<value>\<close> with nothing else on the line.
\<close>

theorem output_directive_counterexample:
  "split_lines (render_script example_world example_args) ! 10
     = ''#SBATCH --output=/home/u/default.log # Redirect the output to a file''
   \<and> split_lines (render_script example_world example_args) ! 10
     \<noteq> ''#SBATCH --output=/home/u/default.log''"
proof -
  have "m_flag example_args \<or> (one_line (qos example_args) \<and> one_line (mem example_args)
      \<and> one_line (gpu example_args))"
    using example_one_line by simp
  from render_script_head [OF example_one_line(1,3,4,7,8,9) this, of example_world]
  show ?thesis by (simp add: example_args_eq opt_val_def logfile_of_def)
qed

text \<open>
  C5, amended. When no text put into the template holds a line break, the script is the
  interpreter line, then one directive line for each of job-name, qos, partition, account,
  ntasks, cpus-per-task, mem (with \<^verbatim>\<open>gb\<close> after the value), gpus and time, in this order
  and each \<^verbatim>\<open>#SBATCH --<key>=<value>\<close> with nothing else, then the output directive
  \<^verbatim>\<open>#SBATCH --output=<pwd>/<logfile>\<close> followed by the comment
  \<^verbatim>\<open> # Redirect the output to a file\<close>, then the activation and the command; no other line
  is a directive.
\<close>


theorem script_lines:
  assumes "one_line (job a)" "one_line (qos a)" "one_line (part a)" "one_line (acc_opt a)"
    "one_line (mem a)" "one_line (gpu a)" "one_line (time a)"
    "one_line (py_str (opt_val (pwd a)))" "one_line (logfile_of a)"
    "one_line (py_str (opt_val (conda_env a)))" "one_line (command a)"
  shows \<open>split_lines (render_script w a) =
     [''#!/bin/bash'',
      ''#SBATCH --job-name='' @ job a,
      ''#SBATCH --qos='' @ (if m_flag a then ''huge-long'' else qos a),
      ''#SBATCH --partition='' @ part a,
      ''#SBATCH --account='' @ acc_opt a,
      ''#SBATCH --ntasks='' @ str_int (ntasks a),
      ''#SBATCH --cpus-per-task='' @ (if m_flag a then ''4'' else str_int (cpu a)),
      ''#SBATCH --mem='' @ (if m_flag a then ''32'' else mem a) @ ''gb'',
      ''#SBATCH --gpus='' @ (if m_flag a then ''rtxa4000:4'' else gpu a),
      ''#SBATCH --time='' @ time a,
      ''#SBATCH --output='' @ py_str (opt_val (pwd a)) @ ''/'' @ logfile_of a
         @ '' # Redirect the output to a file'',
      [],
      ''eval "$(conda shell.bash hook)"'',
      [],
      ''# Activate conda environment'',
      ''conda activate '' @ py_str (opt_val (conda_env a)),
      [],
      ''# Run your Python script or other commands'',
      command_of w a,
      []]\<close>
proof -
  have "m_flag a \<or> (one_line (qos a) \<and> one_line (mem a) \<and> one_line (gpu a))"
    using assms by simp
  from render_script_head [OF assms(1,3,4,7,8,9) this, of w]
    script_tail_lines [OF assms(10) one_line_command_of [OF assms(11)], of w]
  show ?thesis by simp
qed

theorem script_lines_witness:
  \<open>split_lines (render_script example_world example_args) =
     [''#!/bin/bash'',
      ''#SBATCH --job-name=default'',
      ''#SBATCH --qos=default'',
      ''#SBATCH --partition=clip'',
      ''#SBATCH --account=clip'',
      ''#SBATCH --ntasks=1'',
      ''#SBATCH --cpus-per-task=1'',
      ''#SBATCH --mem=32gb'',
      ''#SBATCH --gpus=rtxa4000:1'',
      ''#SBATCH --time=10:00'',
      ''#SBATCH --output=/home/u/default.log # Redirect the output to a file'',
      [],
      ''eval "$(conda shell.bash hook)"'',
      [],
      ''# Activate conda environment'',
      ''conda activate None'',
      [],
      ''# Run your Python script or other commands'',
      ''python train.py'',
      []]\<close>
  using script_lines [OF example_one_line, of example_world]
  by (simp add: example_command) (simp add: example_args_eq opt_val_def logfile_of_def str_int_1)

text \<open>
  C6. The default of \<^verbatim>\<open>--conda_env\<close> is read from the variable named
  \<^verbatim>\<open>$CONDA_DEFAULT_ENV\<close>, with the dollar sign in the name (line 67). With
  \<^verbatim>\<open>CONDA_DEFAULT_ENV=nlp\<close> in the environment and no \<^verbatim>\<open>--conda_env\<close>, the environment
  to activate is \<^verbatim>\<open>None\<close> and the script activates \<^verbatim>\<open>None\<close>, not \<^verbatim>\<open>nlp\<close>.
\<close>

theorem conda_default_reads_dollar_name:
  "getenv example_world ''CONDA_DEFAULT_ENV'' = Some ''nlp''
   \<and> cli_conda_env example_cli = None
   \<and> conda_env (run_options example_world ''clip'' example_cli) = None
   \<and> split_lines (render_script example_world (run_options example_world ''clip'' example_cli)) ! 15
       = ''conda activate None''"
proof -
  have "m_flag example_args \<or> (one_line (qos example_args) \<and> one_line (mem example_args)
      \<and> one_line (gpu example_args))"
    using example_one_line by simp
  from render_script_head [OF example_one_line(1,3,4,7,8,9) this, of example_world]
    script_tail_lines [OF example_one_line(10) one_line_command_of [OF example_one_line(11)],
      of example_world]
  have "split_lines (render_script example_world example_args) ! 15 = ''conda activate None''"
    by (simp add: example_args_eq opt_val_def)
  moreover have "getenv example_world ''CONDA_DEFAULT_ENV'' = Some ''nlp''"
    by (simp add: example_defs)
  moreover have "conda_env (run_options example_world ''clip'' example_cli) = None"
    by (simp add: example_defs)
  moreover have "cli_conda_env example_cli = None" by (simp add: example_cli_def)
  ultimately show ?thesis by (simp add: example_args_def)
qed

text \<open>
  C7. With \<^verbatim>\<open>BATC_SETUP\<close> equal to \<^verbatim>\<open>true\<close>, \<open>setup\<close> returns after one message: the world
  it leaves differs from the one it found in that message only, so no command was run and
  no file was written. A second setup that finds the guard set is such a call.
\<close>

theorem setup_guard_noop:
  assumes "getenv w ''BATC_SETUP'' = Some ''true''"
  shows "setup_cmd w = (Inr (), w\<lparr>echoed := echoed w @ [''Setup has already been completed'']\<rparr>)"
  using assms by (simp add: setup_cmd_def echo_def)

theorem setup_guard_noop_witness:
  "getenv ((snd (setup_cmd example_world))
      \<lparr>environ := (environ (snd (setup_cmd example_world)))(''BATC_SETUP'' \<mapsto> ''true'')\<rparr>)
     ''BATC_SETUP'' = Some ''true''
   \<and> files (snd (setup_cmd ((snd (setup_cmd example_world))
      \<lparr>environ := (environ (snd (setup_cmd example_world)))(''BATC_SETUP'' \<mapsto> ''true'')\<rparr>)))
     = files (snd (setup_cmd example_world))
   \<and> systemed (snd (setup_cmd ((snd (setup_cmd example_world))
      \<lparr>environ := (environ (snd (setup_cmd example_world)))(''BATC_SETUP'' \<mapsto> ''true'')\<rparr>)))
     = systemed (snd (setup_cmd example_world))"
proof -
  let ?w1 = "snd (setup_cmd example_world)"
  let ?w2 = "?w1\<lparr>environ := (environ ?w1)(''BATC_SETUP'' \<mapsto> ''true'')\<rparr>"
  have h: "getenv ?w2 ''BATC_SETUP'' = Some ''true''" by (simp add: getenv_def)
  from setup_guard_noop [OF h] h show ?thesis by simp
qed

text \<open>
  C8. On a host whose fully-qualified name is not \<^verbatim>\<open>nexus\<close> followed by at least one
  letter, every invocation, \<open>setup\<close> included, ends in the \<^verbatim>\<open>AttributeError\<close> of line 11
  with the world untouched: no command has run.
\<close>

theorem batc_fails_on_foreign_host:
  assumes "\<not> (\<exists>s rest. s \<noteq> [] \<and> (\<forall>c\<in>set s. is_alpha c) \<and> fqdn w = ''nexus'' @ s @ rest)"
  shows "batc w i = (Inl AttributeError, w)"
  using partition_acc_name_fails [OF assms] by (simp add: batc_def)

theorem batc_fails_on_foreign_host_witness:
  "\<not> (\<exists>s rest. s \<noteq> [] \<and> (\<forall>c\<in>set s. is_alpha c)
        \<and> fqdn (example_world\<lparr>fqdn := ''nexus01.umiacs.umd.edu''\<rparr>) = ''nexus'' @ s @ rest)
   \<and> batc (example_world\<lparr>fqdn := ''nexus01.umiacs.umd.edu''\<rparr>) Setup
       = (Inl AttributeError, example_world\<lparr>fqdn := ''nexus01.umiacs.umd.edu''\<rparr>)"
proof -
  let ?w = "example_world\<lparr>fqdn := ''nexus01.umiacs.umd.edu''\<rparr>"
  have h: "\<not> (\<exists>s rest. s \<noteq> [] \<and> (\<forall>c\<in>set s. is_alpha c) \<and> fqdn ?w = ''nexus'' @ s @ rest)"
  proof
    assume "\<exists>s rest. s \<noteq> [] \<and> (\<forall>c\<in>set s. is_alpha c) \<and> fqdn ?w = ''nexus'' @ s @ rest"
    then obtain s rest where s: "s \<noteq> []" "\<forall>c\<in>set s. is_alpha c"
      and e: "''01.umiacs.umd.edu'' = s @ rest"
      by auto
    from s(1) e have "hd s = CHR ''0''" by (cases s) auto
    with s show False by (cases s) (auto simp: is_alpha_def)
  qed
  from batc_fails_on_foreign_host [OF h] h show ?thesis by blast
qed

text \<open>
  C9, as stated, fails for an absolute \<^verbatim>\<open>--logfile\<close> with \<^verbatim>\<open>--pwd /\<close>: run in \<^verbatim>\<open>/home/u\<close>,
  the option names another directory than the working directory, and yet
  \<^verbatim>\<open>{pwd}/{logfile}\<close>, here \<^verbatim>\<open>///home/u/run.log\<close>, names the very file the check examines: a
  file there makes \<open>run\<close> raise the usage error.
\<close>

theorem logfile_check_counterexample:
  "pwd (example_args\<lparr>pwd := Some ''/'', logfile := ''/home/u/run.log''\<rparr>) \<noteq> Some (cwd example_world)
   \<and> abspath example_world ''/'' \<noteq> abspath example_world (cwd example_world)
   \<and> output_path (opt_val (pwd (example_args\<lparr>pwd := Some ''/'', logfile := ''/home/u/run.log''\<rparr>)))
        (logfile_of (example_args\<lparr>pwd := Some ''/'', logfile := ''/home/u/run.log''\<rparr>))
       = ''///home/u/run.log''
   \<and> abspath example_world ''///home/u/run.log''
       = abspath example_world
           (logfile_of (example_args\<lparr>pwd := Some ''/'', logfile := ''/home/u/run.log''\<rparr>))
   \<and> fst (run (example_world\<lparr>files := (files example_world)
                 (abspath example_world ''///home/u/run.log'' \<mapsto> ''old'')\<rparr>)
          (example_args\<lparr>pwd := Some ''/'', logfile := ''/home/u/run.log''\<rparr>))
       = Inl (BadOptionUsage ''--logfile'' ''File with the same name as logfile already exists'')"
proof -
  let ?a = "example_args\<lparr>pwd := Some ''/'', logfile := ''/home/u/run.log''\<rparr>"
  have l: "logfile_of ?a = ''/home/u/run.log''" by (simp add: logfile_of_def)
  have p: "abspath example_world ''///home/u/run.log'' = ''/home/u/run.log''"
    "abspath example_world ''/home/u/run.log'' = ''/home/u/run.log''"
    "abspath example_world ''/'' = ''/''"
    "abspath example_world (cwd example_world) = ''/home/u''"
    by (simp_all add: abspath_def join_def suffix_to_prefix normpath_def example_world_def)
  let ?w = "example_world\<lparr>files := (files example_world)
                 (abspath example_world ''///home/u/run.log'' \<mapsto> ''old'')\<rparr>"
  have "abspath ?w (logfile_of ?a) = ''/home/u/run.log''"
    using p(2) by (simp add: l abspath_def)
  then have "files ?w (abspath ?w (logfile_of ?a)) \<noteq> None" by (simp add: p)
  then have c5: "fst (run ?w ?a)
      = Inl (BadOptionUsage ''--logfile'' ''File with the same name as logfile already exists'')"
    using run_rejects_iff [of ?w ?a] by blast
  have c1: "pwd ?a \<noteq> Some (cwd example_world)" by (simp add: example_world_def)
  have c2: "abspath example_world ''/'' \<noteq> abspath example_world (cwd example_world)"
    unfolding p by simp
  have c3: "output_path (opt_val (pwd ?a)) (logfile_of ?a) = ''///home/u/run.log''"
    by (simp add: l output_path_def opt_val_def)
  have c4: "abspath example_world ''///home/u/run.log'' = abspath example_world (logfile_of ?a)"
    unfolding l p by simp
  from c1 c2 c3 c4 c5 show ?thesis by blast
qed

text \<open>
  C9, amended. The check examines the log file name resolved against the working directory:
  \<open>run\<close> raises the usage error exactly when a regular file is there, whatever \<^verbatim>\<open>--pwd\<close>
  is. The output directive of the script names \<^verbatim>\<open>{pwd}/{logfile}\<close>. Whenever that path
  and the log file name resolve to different files, a file at the path of the directive
  has no effect on the check. (The job resolves the path of the directive from the
  directory it was submitted in.)
\<close>

theorem logfile_check_ignores_pwd:
  "(fst (run w a) = Inl (BadOptionUsage ''--logfile''
            ''File with the same name as logfile already exists'')
      \<longleftrightarrow> files w (abspath w (logfile_of a)) \<noteq> None)
   \<and> (fst (run w (a\<lparr>pwd := p\<rparr>)) = Inl (BadOptionUsage ''--logfile''
            ''File with the same name as logfile already exists'')
      \<longleftrightarrow> fst (run w a) = Inl (BadOptionUsage ''--logfile''
            ''File with the same name as logfile already exists''))
   \<and> (\<exists>pre. render_script w a
         = pre @ ''#SBATCH --output='' @ output_path (opt_val (pwd a)) (logfile_of a)
             @ '' # Redirect the output to a file''
             @ newline # script_tail (opt_val (conda_env a)) (command_of w a))
   \<and> (abspath w (output_path (opt_val (pwd a)) (logfile_of a)) \<noteq> abspath w (logfile_of a) \<longrightarrow>
        (fst (run (w\<lparr>files := (files w)
                    (abspath w (output_path (opt_val (pwd a)) (logfile_of a)) \<mapsto> txt)\<rparr>) a)
           = Inl (BadOptionUsage ''--logfile''
                ''File with the same name as logfile already exists'')
         \<longleftrightarrow> files w (abspath w (logfile_of a)) \<noteq> None))"
proof (intro conjI impI)
  show "fst (run w a) = Inl (BadOptionUsage ''--logfile''
            ''File with the same name as logfile already exists'')
      \<longleftrightarrow> files w (abspath w (logfile_of a)) \<noteq> None"
    by (rule run_rejects_iff)
next
  have "logfile_of (a\<lparr>pwd := p\<rparr>) = logfile_of a" by (simp add: logfile_of_def)
  then show "fst (run w (a\<lparr>pwd := p\<rparr>)) = Inl (BadOptionUsage ''--logfile''
            ''File with the same name as logfile already exists'')
      \<longleftrightarrow> fst (run w a) = Inl (BadOptionUsage ''--logfile''
            ''File with the same name as logfile already exists'')"
    by (simp only: run_rejects_iff)
next
  show "\<exists>pre. render_script w a
         = pre @ ''#SBATCH --output='' @ output_path (opt_val (pwd a)) (logfile_of a)
             @ '' # Redirect the output to a file''
             @ newline # script_tail (opt_val (conda_env a)) (command_of w a)"
    by (rule render_script_output)
next
  let ?o = "abspath w (output_path (opt_val (pwd a)) (logfile_of a))"
  let ?w = "w\<lparr>files := (files w)(?o \<mapsto> txt)\<rparr>"
  assume d: "?o \<noteq> abspath w (logfile_of a)"
  have "abspath ?w (logfile_of a) = abspath w (logfile_of a)" by (simp add: abspath_def)
  then have "files ?w (abspath ?w (logfile_of a)) = files w (abspath w (logfile_of a))"
    using d by simp
  then show "fst (run ?w a) = Inl (BadOptionUsage ''--logfile''
                ''File with the same name as logfile already exists'')
         \<longleftrightarrow> files w (abspath w (logfile_of a)) \<noteq> None"
    by (simp only: run_rejects_iff)
qed

theorem logfile_check_ignores_pwd_witness:
  "abspath example_world (output_path (opt_val (pwd (example_args\<lparr>pwd := Some ''/scratch/u''\<rparr>)))
        (logfile_of (example_args\<lparr>pwd := Some ''/scratch/u''\<rparr>))) = ''/scratch/u/default.log''
   \<and> abspath example_world (logfile_of (example_args\<lparr>pwd := Some ''/scratch/u''\<rparr>))
        = ''/home/u/default.log''
   \<and> fst (run (example_world\<lparr>files := (files example_world)(''/scratch/u/default.log'' \<mapsto> ''old'')\<rparr>)
        (example_args\<lparr>pwd := Some ''/scratch/u''\<rparr>))
       \<noteq> Inl (BadOptionUsage ''--logfile'' ''File with the same name as logfile already exists'')"
proof -
  let ?a = "example_args\<lparr>pwd := Some ''/scratch/u''\<rparr>"
  have l: "logfile_of ?a = ''default.log''" by (simp add: logfile_of_def example_args_eq)
  have o: "abspath example_world (output_path (opt_val (pwd ?a)) (logfile_of ?a))
      = ''/scratch/u/default.log''"
    by (simp add: l output_path_def opt_val_def abspath_def join_def suffix_to_prefix
        normpath_def example_world_def)
  have c: "abspath example_world (logfile_of ?a) = ''/home/u/default.log''"
    by (simp add: l example_paths)
  have n: "files example_world ''/home/u/default.log'' = None" by (simp add: example_world_def)
  have d: "abspath example_world (output_path (opt_val (pwd ?a)) (logfile_of ?a))
      \<noteq> abspath example_world (logfile_of ?a)"
    unfolding o c by simp
  from logfile_check_ignores_pwd [of example_world ?a _ "''old''"] d
  have "fst (run (example_world\<lparr>files := (files example_world)
                    (abspath example_world (output_path (opt_val (pwd ?a)) (logfile_of ?a))
                       \<mapsto> ''old'')\<rparr>) ?a)
           = Inl (BadOptionUsage ''--logfile''
                ''File with the same name as logfile already exists'')
         \<longleftrightarrow> files example_world (abspath example_world (logfile_of ?a)) \<noteq> None"
    by blast
  then show ?thesis using n o c unfolding o c by simp
qed

text \<open>
  C10. Once the job has been handed to sbatch, the record goes to
  \<^verbatim>\<open>os.path.join(os.getenv('PWD'), datafile)\<close>: the option \<^verbatim>\<open>--pwd\<close> has no part in the
  path. Without \<^verbatim>\<open>PWD\<close> in the environment the join raises \<^verbatim>\<open>TypeError\<close>, after the
  submission and with no record written; with it (and a path that can be opened) the
  record file at that path is the only file written.
\<close>

theorem record_written_under_PWD:
  assumes "files w (abspath w (logfile_of a)) = None" and "tmpname w = Some t"
    and "sbatch w t (render_script w a) = Some (out, err)"
  shows "(getenv w ''PWD'' = None \<longrightarrow>
            fst (run w a) = Inl TypeError
          \<and> submitted (snd (run w a)) = submitted w @ [render_script w a]
          \<and> files (snd (run w a)) = (files w)(t := None))
       \<and> (\<forall>d. getenv w ''PWD'' = Some d \<and> can_open w (abspath w (join d (datafile_of a))) \<longrightarrow>
            fst (run w a) = Inr ()
          \<and> (\<exists>txt. files (snd (run w a))
                 = (files w)(t := None, abspath w (join d (datafile_of a)) \<mapsto> txt)))"
  unfolding run_after_submission [OF assms] by auto

theorem record_written_under_PWD_witness:
  "fst (run (example_world\<lparr>environ := (environ example_world)(''PWD'' := None)\<rparr>)
         (example_args\<lparr>pwd := Some ''/scratch/u''\<rparr>)) = Inl TypeError
   \<and> length (submitted (snd (run (example_world\<lparr>environ := (environ example_world)(''PWD'' := None)\<rparr>)
         (example_args\<lparr>pwd := Some ''/scratch/u''\<rparr>)))) = 1
   \<and> fst (run example_world (example_args\<lparr>pwd := Some ''/scratch/u''\<rparr>)) = Inr ()
   \<and> (\<exists>txt. files (snd (run example_world (example_args\<lparr>pwd := Some ''/scratch/u''\<rparr>)))
         = (files example_world)(''/tmp/tmpk3v9x2'' := None, ''/home/u/default.data'' \<mapsto> txt))"
proof -
  let ?a = "example_args\<lparr>pwd := Some ''/scratch/u''\<rparr>"
  let ?w = "example_world\<lparr>environ := (environ example_world)(''PWD'' := None)\<rparr>"
  have l: "logfile_of ?a = logfile_of example_args" by (simp add: logfile_of_def)
  have d: "datafile_of ?a = ''default.data''" by (simp add: example_defs datafile_of_def)
  have h1: "files ?w (abspath ?w (logfile_of ?a)) = None"
    using example_logfile by (simp add: l abspath_def) (simp add: example_world_def)
  have h2: "tmpname ?w = Some ''/tmp/tmpk3v9x2''" by (simp add: example_world_def)
  have h3: "sbatch ?w ''/tmp/tmpk3v9x2'' (render_script ?w ?a)
      = Some (''Submitted batch job 12345'' @ [newline], [])"
    by (simp add: example_world_def)
  have h4: "getenv ?w ''PWD'' = None" by (simp add: getenv_def)
  have g1: "files example_world (abspath example_world (logfile_of ?a)) = None"
    using example_logfile by (simp add: l) (simp add: example_world_def)
  have g2: "tmpname example_world = Some ''/tmp/tmpk3v9x2''" by (simp add: example_world_def)
  have g3: "sbatch example_world ''/tmp/tmpk3v9x2'' (render_script example_world ?a)
      = Some (''Submitted batch job 12345'' @ [newline], [])"
    by (simp add: example_world_def)
  have g4: "getenv example_world ''PWD'' = Some ''/home/u''" by (simp add: example_defs)
  have g5: "abspath example_world (join ''/home/u'' (datafile_of ?a)) = ''/home/u/default.data''"
    by (simp add: d join_def suffix_to_prefix example_paths)
  have g6: "can_open example_world ''/home/u/default.data''" by (simp add: example_world_def)
  have g7: "submitted example_world = []" by (simp add: example_world_def)
  from record_written_under_PWD [OF h1 h2 h3] h4
    record_written_under_PWD [OF g1 g2 g3] g4 g5 g6 g7
  show ?thesis by simp
qed

end
